theory Spec2Isabelle
  imports Complex_Main
begin

section \<open>JavaScript values\<close>

text \<open>
  The handlers are duck-typed JavaScript. A request field that the code tests for
  truthiness (\<^verbatim>\<open>pages\<close>, \<^verbatim>\<open>element.src\<close>, \<^verbatim>\<open>element.fontSize\<close>) is a \<open>jsval\<close>:
  \<open>JUndefined\<close> is an absent field, \<open>JObj\<close> any object that is not an array, \<open>JArr\<close> an
  array whose entries have the type the code reads them at. A number is a finite
  double, held as the real it denotes (a JSON body cannot carry NaN or Infinity).
\<close>

datatype 'a jsval =
  JUndefined | JNull | JBool bool | JNum real | JStr string | JObj | JArr "'a list"

type_synonym jsv = "unit jsval"

fun truthy :: "'a jsval \<Rightarrow> bool" where
  "truthy JUndefined = False"
| "truthy JNull = False"
| "truthy (JBool b) = b"
| "truthy (JNum r) = (r \<noteq> 0)"
| "truthy (JStr s) = (s \<noteq> [])"
| "truthy JObj = True"
| "truthy (JArr xs) = True"

text \<open>\<^verbatim>\<open>a || b\<close>\<close>

definition js_or :: "'a jsval \<Rightarrow> 'a jsval \<Rightarrow> 'a jsval" where
  "js_or v w = (if truthy v then v else w)"

text \<open>\<^verbatim>\<open>Array.isArray(v)\<close>\<close>

fun isArray :: "'a jsval \<Rightarrow> bool" where
  "isArray (JArr xs) = True"
| "isArray v = False"

subsection \<open>Arithmetic\<close>

text \<open>
  JavaScript computes on IEEE 754 doubles: the result of \<^verbatim>\<open>+\<close>, \<^verbatim>\<open>-\<close> and \<^verbatim>\<open>*\<close> is the exact
  result rounded to the nearest double, ties to the even significand. \<open>fl\<close> is that
  rounding: a significand of 53 bits at the exponent of the argument, which is at
  least \<open>-1022\<close> (below it the doubles are subnormal and equally spaced). A result
  beyond the largest double, which JavaScript turns into \<^verbatim>\<open>Infinity\<close>, and the sign of
  zero are outside the model.
\<close>

definition pow2 :: "int \<Rightarrow> real" where
  "pow2 e = (if 0 \<le> e then 2 ^ nat e else 1 / 2 ^ nat (- e))"

text \<open>The nearest integer, ties to even.\<close>

definition rne :: "real \<Rightarrow> int" where
  "rne z =
     (let f = \<lfloor>z\<rfloor>; d = z - of_int f
      in if d < 1 / 2 then f else if 1 / 2 < d then f + 1 else if even f then f else f + 1)"

definition fl :: "real \<Rightarrow> real" where
  "fl x =
     (if x = 0 then 0
      else (let q = pow2 (max \<lfloor>log 2 \<bar>x\<bar>\<rfloor> (- 1022) - 52)
            in q * of_int (rne (x / q))))"

text \<open>
  \<^verbatim>\<open>Math.hypot(a, b)\<close>. The language leaves its accuracy to the implementation; the model
  takes the correctly rounded value.
\<close>

definition hypot :: "real \<Rightarrow> real \<Rightarrow> real" where
  "hypot p q = fl (sqrt (p * p + q * q))"

section \<open>The intermediate representation\<close>

text \<open>
  One element of a page of the intermediate JSON. \<open>fontSize\<close> and \<open>src\<close> are kept as
  JavaScript values because the reconstructor tests them for truthiness.
\<close>

record element =
  el_type :: string
  el_text :: string
  el_x :: real
  el_y :: real
  el_fontSize :: jsv
  el_width :: real
  el_height :: real
  el_fontName :: string
  el_src :: jsv

record page_descriptor =
  pg_width :: real
  pg_height :: real
  pg_elements :: "element list"

section \<open>What the document parser supplies\<close>

text \<open>A transform \<^verbatim>\<open>[a, b, c, d, e, f]\<close>; \<open>t4\<close> is \<^verbatim>\<open>transform[4]\<close>.\<close>

record transform =
  t0 :: real
  t1 :: real
  t2 :: real
  t3 :: real
  t4 :: real
  t5 :: real

text \<open>An entry of \<^verbatim>\<open>content.items\<close>.\<close>

record text_item =
  item_str :: string
  item_transform :: transform
  item_width :: real
  item_height :: real
  item_fontName :: string

text \<open>
  The operator list. \<^verbatim>\<open>fnArray\<close> and \<^verbatim>\<open>argsArray\<close> are parallel arrays of one length, so
  an operator is its op code with its arguments. The arguments the parser passes are
  object names, numbers and, as the code expects of a set-transform, an array of six
  numbers.
\<close>

datatype arg = ArgName string | ArgNum real | ArgMatrix transform

type_synonym operator_list = "(nat \<times> arg list) list"

text \<open>
  \<^verbatim>\<open>pdfjsLib.OPS\<close>, the parser's table of op codes, at the four names the code reads.
  The table is not part of the repository; a name it does not define reads as
  \<^verbatim>\<open>undefined\<close>, here \<open>None\<close>, and \<^verbatim>\<open>ops[k] === undefined\<close> holds for no op code.
\<close>

record ops_table =
  OPS_paintImageXObject :: "nat option"
  OPS_paintImageXObjectRepeat :: "nat option"
  OPS_paintJpegXObject :: "nat option"
  OPS_setTransform :: "nat option"

text \<open>A resolved raster object, \<^verbatim>\<open>page.objs.get(imgName)\<close>.\<close>

record image_obj =
  img_width :: real
  img_height :: real
  img_data :: "nat list option"

datatype error = TypeError | ParseError | ObjError | CanvasError | EmbedError
  | DrawError | SaveError | ENOENT | SyntaxError

text \<open>A parsed page: viewport, text content and the collaborators of the image pass.\<close>

record source_page =
  vp_width :: real
  vp_height :: real
  content_items :: "text_item list"
  getOperatorList :: "error + operator_list"
  objs_get :: "string \<Rightarrow> error + image_obj option"
  toDataURL :: "image_obj \<Rightarrow> error + string"

section \<open>Extraction\<close>

subsection \<open>Text runs\<close>

text \<open>\<^verbatim>\<open>src/app.js\<close>, lines 30-42.\<close>

definition textElement_app :: "text_item \<Rightarrow> element" where
  "textElement_app item =
     (let transform = item_transform item in
      \<lparr> el_type = ''text'', el_text = item_str item,
        el_x = t4 transform, el_y = t5 transform,
        el_fontSize = JNum (hypot (t0 transform) (t1 transform)),
        el_width = item_width item, el_height = item_height item,
        el_fontName = item_fontName item, el_src = JUndefined \<rparr>)"

text \<open>
  The in-memory and the \<^verbatim>\<open>/tmp\<close> variants, lines 69-81 and 1091-1105:
  \<^verbatim>\<open>fontSize: item.height || Math.hypot(transform[0], transform[1])\<close>.
\<close>

definition textElement :: "text_item \<Rightarrow> element" where
  "textElement item =
     (let transform = item_transform item in
      \<lparr> el_type = ''text'', el_text = item_str item,
        el_x = t4 transform, el_y = t5 transform,
        el_fontSize = JNum (if item_height item \<noteq> 0 then item_height item
                            else hypot (t0 transform) (t1 transform)),
        el_width = item_width item, el_height = item_height item,
        el_fontName = item_fontName item, el_src = JUndefined \<rparr>)"

definition textElements :: "text_item list \<Rightarrow> element list" where
  "textElements items = map textElement items"

text \<open>
  \<^verbatim>\<open>extractPageElements\<close> of the \<^verbatim>\<open>/api\<close> variant, lines 799-811:
  \<^verbatim>\<open>y: viewport.height - item.transform[5]\<close>; it stores no \<^verbatim>\<open>fontSize\<close>.
\<close>

definition textElement_api :: "real \<Rightarrow> text_item \<Rightarrow> element" where
  "textElement_api viewport_height item =
     \<lparr> el_type = ''text'', el_text = item_str item,
       el_x = t4 (item_transform item),
       el_y = fl (viewport_height - t5 (item_transform item)),
       el_fontSize = JUndefined,
       el_width = item_width item, el_height = item_height item,
       el_fontName = item_fontName item, el_src = JUndefined \<rparr>"

subsection \<open>Images\<close>

text \<open>\<^verbatim>\<open>args[k][0]\<close>: \<^verbatim>\<open>undefined\<close>, here \<open>None\<close>, when the operator has no argument.\<close>

fun first_arg :: "arg list \<Rightarrow> arg option" where
  "first_arg [] = None"
| "first_arg (a # as) = Some a"

text \<open>
  Lines 114-120: \<^verbatim>\<open>let ctm = null; for (let k = j - 1; k >= 0; k--)\<close>, stopping at the
  first operator with \<^verbatim>\<open>ops[k] === pdfjsLib.OPS.setTransform\<close>. \<open>search_back OPS ops n\<close>
  inspects the indices \<open>n - 1\<close> down to \<open>0\<close>; \<open>None\<close> is \<^verbatim>\<open>null\<close> or \<^verbatim>\<open>undefined\<close>.
\<close>

fun search_back :: "ops_table \<Rightarrow> operator_list \<Rightarrow> nat \<Rightarrow> arg option" where
  "search_back OPS ops 0 = None"
| "search_back OPS ops (Suc k) =
     (if OPS_setTransform OPS = Some (fst (ops ! k)) then first_arg (snd (ops ! k))
      else search_back OPS ops k)"

definition find_ctm :: "ops_table \<Rightarrow> operator_list \<Rightarrow> nat \<Rightarrow> arg option" where
  "find_ctm OPS ops j = search_back OPS ops j"

definition scaleX :: "transform \<Rightarrow> real" where
  "scaleX ctm = hypot (t0 ctm) (t1 ctm)"

definition scaleY :: "transform \<Rightarrow> real" where
  "scaleY ctm = hypot (t2 ctm) (t3 ctm)"

text \<open>Line 129: \<^verbatim>\<open>y = viewport.height - (ctm[5] + height)\<close>.\<close>

definition extract_image_y :: "real \<Rightarrow> real \<Rightarrow> real \<Rightarrow> real" where
  "extract_image_y viewport_height ctm5 height = fl (viewport_height - fl (ctm5 + height))"

text \<open>
  What the loop pushes for an image. \<open>Coerced\<close>: \<^verbatim>\<open>ctm\<close> is truthy and no array, so
  \<^verbatim>\<open>x\<close>, \<^verbatim>\<open>y\<close>, \<^verbatim>\<open>width\<close> and \<^verbatim>\<open>height\<close> come from indexing a number or a name; the model
  keeps the data URL of such an element and does not compute its coordinates.
\<close>

datatype pushed = Placed element | Coerced string

text \<open>Lines 122-125, the placement when \<^verbatim>\<open>ctm\<close> is falsy.\<close>

definition default_placement :: "image_obj \<Rightarrow> string \<Rightarrow> element" where
  "default_placement img dataURL =
     \<lparr> el_type = ''image'', el_text = [], el_x = 0, el_y = 0,
       el_fontSize = JUndefined,
       el_width = img_width img, el_height = img_height img,
       el_fontName = [], el_src = JStr dataURL \<rparr>"

text \<open>
  Lines 122-143. \<^verbatim>\<open>y\<close> is computed from \<^verbatim>\<open>height\<close> before \<^verbatim>\<open>height\<close> is rescaled, so
  it uses the natural pixel height.
\<close>

definition image_element :: "real \<Rightarrow> image_obj \<Rightarrow> string \<Rightarrow> arg option \<Rightarrow> pushed" where
  "image_element viewport_height img dataURL ctm =
     (case ctm of
        None \<Rightarrow> Placed (default_placement img dataURL)
      | Some (ArgMatrix m) \<Rightarrow>
          Placed
            \<lparr> el_type = ''image'', el_text = [], el_x = t4 m,
              el_y = extract_image_y viewport_height (t5 m) (img_height img),
              el_fontSize = JUndefined,
              el_width = fl (img_width img * scaleX m),
              el_height = fl (img_height img * scaleY m),
              el_fontName = [], el_src = JStr dataURL \<rparr>
      | Some (ArgNum r) \<Rightarrow>
          (if r = 0 then Placed (default_placement img dataURL) else Coerced dataURL)
      | Some (ArgName s) \<Rightarrow>
          (if s = [] then Placed (default_placement img dataURL) else Coerced dataURL))"

text \<open>
  Lines 92-94: \<^verbatim>\<open>ops[j] === OPS.paintImageXObject || ... Repeat || ... paintJpegXObject\<close>.
\<close>

definition paints_image :: "ops_table \<Rightarrow> nat \<Rightarrow> bool" where
  "paints_image OPS fn =
     (OPS_paintImageXObject OPS = Some fn \<or> OPS_paintImageXObjectRepeat OPS = Some fn
      \<or> OPS_paintJpegXObject OPS = Some fn)"

text \<open>
  The body of the loop at index \<open>j\<close>, lines 92-148: nothing is pushed when the operator
  paints no image, when resolving or re-encoding the image throws (the inner
  \<^verbatim>\<open>catch\<close>; \<^verbatim>\<open>objs.get\<close> throws on what is no object name), or when \<^verbatim>\<open>img && img.data\<close>
  is falsy.
\<close>

definition image_at :: "ops_table \<Rightarrow> source_page \<Rightarrow> operator_list \<Rightarrow> nat \<Rightarrow> pushed option" where
  "image_at OPS page ops j =
     (if paints_image OPS (fst (ops ! j)) then
        (case first_arg (snd (ops ! j)) of
           Some (ArgName imgName) \<Rightarrow>
             (case objs_get page imgName of
                Inl err \<Rightarrow> None
              | Inr None \<Rightarrow> None
              | Inr (Some img) \<Rightarrow>
                  (if img_data img = None then None
                   else (case toDataURL page img of
                           Inl err \<Rightarrow> None
                         | Inr dataURL \<Rightarrow>
                             Some (image_element (vp_height page) img dataURL
                                     (find_ctm OPS ops j)))))
         | _ \<Rightarrow> None)
      else None)"

definition extract_images :: "ops_table \<Rightarrow> source_page \<Rightarrow> pushed list" where
  "extract_images OPS page =
     (case getOperatorList page of
        Inl opError \<Rightarrow> []
      | Inr ops \<Rightarrow> List.map_filter (image_at OPS page ops) [0 ..< length ops])"

text \<open>One page of \<^verbatim>\<open>/pdfToJson\<close>, lines 62-158: text first, then images.\<close>

record extracted_page =
  xp_width :: real
  xp_height :: real
  xp_elements :: "pushed list"

definition extract_page :: "ops_table \<Rightarrow> source_page \<Rightarrow> extracted_page" where
  "extract_page OPS page =
     \<lparr> xp_width = vp_width page, xp_height = vp_height page,
       xp_elements = map Placed (textElements (content_items page)) @ extract_images OPS page \<rparr>"

definition extract_page_app :: "source_page \<Rightarrow> page_descriptor" where
  "extract_page_app page =
     \<lparr> pg_width = vp_width page, pg_height = vp_height page,
       pg_elements = map textElement_app (content_items page) \<rparr>"

section \<open>Reconstruction\<close>

subsection \<open>The document writer\<close>

type_synonym bytes = "nat list"

datatype embed_kind = Png | Jpg | Generic

datatype pdfimage = Embedded embed_kind bytes

text \<open>A draw call as the page records it: text, x, y, size; image, x, y, width, height.\<close>

datatype drawop =
  DrawText string real real jsv
| DrawImage pdfimage real real real real

record pdf_page =
  out_width :: real
  out_height :: real
  out_ops :: "drawop list"

text \<open>
  The collaborators of \<^verbatim>\<open>/jsonToPdf\<close> and \<^verbatim>\<open>/api/json-to-pdf\<close>, each of which may throw:
  \<^verbatim>\<open>PDFDocument.create\<close>, \<^verbatim>\<open>embedFont\<close>, \<^verbatim>\<open>embedPng\<close>, \<^verbatim>\<open>embedJpg\<close>, \<^verbatim>\<open>embedImage\<close>,
  \<^verbatim>\<open>drawText\<close>, \<^verbatim>\<open>save\<close>, \<^verbatim>\<open>sharp(bytes).metadata()\<close> and \<^verbatim>\<open>JSON.parse\<close>;
  \<^verbatim>\<open>Buffer.from(s, 'base64')\<close> never throws.
\<close>

record pdflib =
  create :: "error option"
  embedFont :: "error option"
  png_ok :: "bytes \<Rightarrow> bool"
  jpg_ok :: "bytes \<Rightarrow> bool"
  generic_ok :: "bytes \<Rightarrow> bool"
  sharp_format :: "bytes \<Rightarrow> error + string"
  from_base64 :: "string \<Rightarrow> bytes"
  drawText_ok :: "string \<Rightarrow> jsv \<Rightarrow> bool"
  save :: "pdf_page list \<Rightarrow> error option"

definition embedPng :: "pdflib \<Rightarrow> bytes \<Rightarrow> error + pdfimage" where
  "embedPng lib b = (if png_ok lib b then Inr (Embedded Png b) else Inl EmbedError)"

definition embedJpg :: "pdflib \<Rightarrow> bytes \<Rightarrow> error + pdfimage" where
  "embedJpg lib b = (if jpg_ok lib b then Inr (Embedded Jpg b) else Inl EmbedError)"

definition embedImage :: "pdflib \<Rightarrow> bytes \<Rightarrow> error + pdfimage" where
  "embedImage lib b = (if generic_ok lib b then Inr (Embedded Generic b) else Inl EmbedError)"

subsection \<open>Strings\<close>

text \<open>\<^verbatim>\<open>s.includes(sub)\<close>\<close>

fun js_includes :: "string \<Rightarrow> string \<Rightarrow> bool" where
  "js_includes [] sub = (sub = [])"
| "js_includes (c # cs) sub = (take (length sub) (c # cs) = sub \<or> js_includes cs sub)"

text \<open>The class \<^verbatim>\<open>\w\<close>.\<close>

definition word_char :: "char \<Rightarrow> bool" where
  "word_char c =
     (c \<in> set ''abcdefghijklmnopqrstuvwxyzABCDEFGHIJKLMNOPQRSTUVWXYZ0123456789_'')"

text \<open>
  \<^verbatim>\<open>s.replace(/^data:image\/\w+;base64,/, '')\<close>. The run matched by \<^verbatim>\<open>\w+\<close> is maximal:
  a shorter one is followed by a word character, never by \<^verbatim>\<open>;\<close>.
\<close>

definition strip_data_uri :: "string \<Rightarrow> string" where
  "strip_data_uri s =
     (if take 11 s = ''data:image/'' then
        (let rest = drop 11 s;
             label = takeWhile word_char rest;
             tail = dropWhile word_char rest
         in if label \<noteq> [] \<and> take 8 tail = '';base64,'' then drop 8 tail else s)
      else s)"

subsection \<open>Paint order\<close>

text \<open>The comparator of lines 192-196.\<close>

definition paint_cmp :: "element \<Rightarrow> element \<Rightarrow> int" where
  "paint_cmp a b =
     (if el_type a = ''image'' \<and> el_type b = ''text'' then - 1
      else if el_type a = ''text'' \<and> el_type b = ''image'' then 1
      else 0)"

text \<open>
  \<^verbatim>\<open>Array.prototype.sort(cmp)\<close>, which is stable, as a stable insertion sort: an entry
  goes before the first entry it does not compare greater than, and the entries are
  inserted from the last to the first. Every stable sort returns this list when the
  comparator is a consistent order, which \<open>paint_cmp\<close> is on elements of type \<^verbatim>\<open>text\<close>
  and \<^verbatim>\<open>image\<close>. With an element of a third type it is not, the order is then left to
  the engine, and the model is used only under the hypothesis that there is none.
\<close>

fun insert_by :: "('a \<Rightarrow> 'a \<Rightarrow> int) \<Rightarrow> 'a \<Rightarrow> 'a list \<Rightarrow> 'a list" where
  "insert_by cmp v [] = [v]"
| "insert_by cmp v (w # ws) =
     (if cmp v w \<le> 0 then v # w # ws else w # insert_by cmp v ws)"

fun js_sort :: "('a \<Rightarrow> 'a \<Rightarrow> int) \<Rightarrow> 'a list \<Rightarrow> 'a list" where
  "js_sort cmp [] = []"
| "js_sort cmp (v # vs) = insert_by cmp v (js_sort cmp vs)"

definition sortedElements :: "element list \<Rightarrow> element list" where
  "sortedElements els = js_sort paint_cmp els"

subsection \<open>Drawing one element\<close>

text \<open>\<^verbatim>\<open>element.fontSize || 12\<close>\<close>

definition text_size :: "element \<Rightarrow> jsv" where
  "text_size el = js_or (el_fontSize el) (JNum 12)"

text \<open>
  Lines 209-221, the body of the \<^verbatim>\<open>try\<close> up to the embedded image. A truthy \<^verbatim>\<open>src\<close>
  that is no string has no \<^verbatim>\<open>replace\<close> method.
\<close>

definition embed_image :: "pdflib \<Rightarrow> jsv \<Rightarrow> error + pdfimage" where
  "embed_image lib src =
     (case src of
        JStr s \<Rightarrow>
          (let imageBytes = from_base64 lib (strip_data_uri s) in
           if js_includes s ''image/png'' then embedPng lib imageBytes
           else if js_includes s ''image/jpeg'' then embedJpg lib imageBytes
           else embedPng lib imageBytes)
      | _ \<Rightarrow> Inl TypeError)"

text \<open>Line 202: \<^verbatim>\<open>y: pageData.height - element.y\<close>.\<close>

definition draw_text_y :: "real \<Rightarrow> real \<Rightarrow> real" where
  "draw_text_y pageData_height y = fl (pageData_height - y)"

text \<open>Line 225: \<^verbatim>\<open>y: pageData.height - element.y - element.height\<close>.\<close>

definition draw_image_y :: "real \<Rightarrow> real \<Rightarrow> real \<Rightarrow> real" where
  "draw_image_y pageData_height y height = fl (fl (pageData_height - y) - height)"

text \<open>
  Lines 198-233 (and 1249-1289): one iteration of the loop over \<^verbatim>\<open>sortedElements\<close>.
  A failure inside the \<^verbatim>\<open>try\<close> leaves the page as it was; a failing \<^verbatim>\<open>drawText\<close> is
  not caught here.
\<close>

definition draw_element :: "pdflib \<Rightarrow> real \<Rightarrow> element \<Rightarrow> drawop list \<Rightarrow> error + drawop list" where
  "draw_element lib pageData_height el ops =
     (if el_type el = ''text'' then
        (if drawText_ok lib (el_text el) (text_size el)
         then Inr (ops @ [DrawText (el_text el) (el_x el) (draw_text_y pageData_height (el_y el))
                      (text_size el)])
         else Inl DrawError)
      else if el_type el = ''image'' \<and> truthy (el_src el) then
        (case embed_image lib (el_src el) of
           Inl imgError \<Rightarrow> Inr ops
         | Inr embedded \<Rightarrow>
             Inr (ops @ [DrawImage embedded (el_x el)
                          (draw_image_y pageData_height (el_y el) (el_height el))
                          (el_width el) (el_height el)]))
      else Inr ops)"

fun draw_elements :: "pdflib \<Rightarrow> real \<Rightarrow> element list \<Rightarrow> drawop list \<Rightarrow> error + drawop list" where
  "draw_elements lib h [] ops = Inr ops"
| "draw_elements lib h (el # els) ops =
     (case draw_element lib h el ops of
        Inl err \<Rightarrow> Inl err
      | Inr ops' \<Rightarrow> draw_elements lib h els ops')"

definition reconstruct_page :: "pdflib \<Rightarrow> page_descriptor \<Rightarrow> error + pdf_page" where
  "reconstruct_page lib pageData =
     (case draw_elements lib (pg_height pageData) (sortedElements (pg_elements pageData)) [] of
        Inl err \<Rightarrow> Inl err
      | Inr ops \<Rightarrow>
          Inr \<lparr> out_width = pg_width pageData, out_height = pg_height pageData, out_ops = ops \<rparr>)"

fun reconstruct_pages :: "pdflib \<Rightarrow> page_descriptor list \<Rightarrow> error + pdf_page list" where
  "reconstruct_pages lib [] = Inr []"
| "reconstruct_pages lib (pageData # rest) =
     (case reconstruct_page lib pageData of
        Inl err \<Rightarrow> Inl err
      | Inr pg \<Rightarrow>
          (case reconstruct_pages lib rest of
             Inl err \<Rightarrow> Inl err
           | Inr pgs \<Rightarrow> Inr (pg # pgs)))"

text \<open>\<^verbatim>\<open>src/app.js\<close>, lines 69-90: no sort, no change of frame, no \<^verbatim>\<open>try\<close>, always \<^verbatim>\<open>embedPng\<close>.\<close>

definition embed_image_app :: "pdflib \<Rightarrow> jsv \<Rightarrow> error + pdfimage" where
  "embed_image_app lib src =
     (case src of
        JStr s \<Rightarrow> embedPng lib (from_base64 lib (strip_data_uri s))
      | _ \<Rightarrow> Inl TypeError)"

definition draw_element_app :: "pdflib \<Rightarrow> element \<Rightarrow> drawop list \<Rightarrow> error + drawop list" where
  "draw_element_app lib el ops =
     (if el_type el = ''text'' then
        (if drawText_ok lib (el_text el) (text_size el)
         then Inr (ops @ [DrawText (el_text el) (el_x el) (el_y el) (text_size el)])
         else Inl DrawError)
      else if el_type el = ''image'' \<and> truthy (el_src el) then
        (case embed_image_app lib (el_src el) of
           Inl err \<Rightarrow> Inl err
         | Inr embedded \<Rightarrow>
             Inr (ops @ [DrawImage embedded (el_x el) (el_y el) (el_width el) (el_height el)]))
      else Inr ops)"

fun draw_elements_app :: "pdflib \<Rightarrow> element list \<Rightarrow> drawop list \<Rightarrow> error + drawop list" where
  "draw_elements_app lib [] ops = Inr ops"
| "draw_elements_app lib (el # els) ops =
     (case draw_element_app lib el ops of
        Inl err \<Rightarrow> Inl err
      | Inr ops' \<Rightarrow> draw_elements_app lib els ops')"

fun reconstruct_pages_app :: "pdflib \<Rightarrow> page_descriptor list \<Rightarrow> error + pdf_page list" where
  "reconstruct_pages_app lib [] = Inr []"
| "reconstruct_pages_app lib (pageData # rest) =
     (case draw_elements_app lib (pg_elements pageData) [] of
        Inl err \<Rightarrow> Inl err
      | Inr ops \<Rightarrow>
          (case reconstruct_pages_app lib rest of
             Inl err \<Rightarrow> Inl err
           | Inr pgs \<Rightarrow>
               Inr (\<lparr> out_width = pg_width pageData, out_height = pg_height pageData,
                      out_ops = ops \<rparr> # pgs)))"

text \<open>
  \<^verbatim>\<open>/api/json-to-pdf\<close>, lines 970-985: the format comes from the bytes; a failure of the
  inspection or of the chosen embed falls to \<^verbatim>\<open>embedImage\<close>.
\<close>

definition embed_image_api :: "pdflib \<Rightarrow> string \<Rightarrow> error + pdfimage" where
  "embed_image_api lib data =
     (let imageBytes = from_base64 lib data in
      case sharp_format lib imageBytes of
        Inl err \<Rightarrow> embedImage lib imageBytes
      | Inr format \<Rightarrow>
          (case (if format = ''jpeg'' then embedJpg lib imageBytes
                 else if format = ''png'' then embedPng lib imageBytes
                 else embedImage lib imageBytes) of
             Inl err \<Rightarrow> embedImage lib imageBytes
           | Inr embedded \<Rightarrow> Inr embedded))"

section \<open>The request handlers\<close>

text \<open>
  What a handler leaves behind. A document that was saved and sent, as bytes or in the
  base64 envelope, is held as the pages it was saved from. \<open>NoResponse\<close>: the \<^verbatim>\<open>async\<close>
  handler threw outside any \<^verbatim>\<open>try\<close>; its promise is rejected and the handler writes no
  response.
\<close>

datatype response =
  SentPages "page_descriptor list"
| SentExtracted "extracted_page list"
| SentPdf "pdf_page list"
| SentPdfJson "pdf_page list"
| Status400 string
| Status500 string error
| NoResponse error

subsection \<open>\<^verbatim>\<open>/jsonToPdf\<close>\<close>

text \<open>
  The parsed body: \<^verbatim>\<open>null\<close>, or any other value with its \<^verbatim>\<open>pages\<close> property
  (\<open>JUndefined\<close> when it has none). The in-memory variant also accepts a raw buffer.
\<close>

datatype json_body = BNull | BFields "page_descriptor jsval"

datatype request_body = Direct json_body | Buffer string

text \<open>\<open>created\<close> records whether \<^verbatim>\<open>PDFDocument.create()\<close> was called.\<close>

record reconstruct_result =
  response :: response
  created :: bool

fun array_items :: "'a jsval \<Rightarrow> 'a list" where
  "array_items (JArr xs) = xs"
| "array_items v = []"

text \<open>Lines 186-244, after the validation.\<close>

definition build_pdf :: "pdflib \<Rightarrow> page_descriptor list \<Rightarrow> error + pdf_page list" where
  "build_pdf lib pages =
     (case create lib of
        Some err \<Rightarrow> Inl err
      | None \<Rightarrow>
          (case embedFont lib of
             Some err \<Rightarrow> Inl err
           | None \<Rightarrow>
               (case reconstruct_pages lib pages of
                  Inl err \<Rightarrow> Inl err
                | Inr pgs \<Rightarrow>
                    (case save lib pgs of Some err \<Rightarrow> Inl err | None \<Rightarrow> Inr pgs))))"

text \<open>The in-memory variant, lines 170-250.\<close>

definition jsonToPdf :: "(string \<Rightarrow> error + json_body) \<Rightarrow> pdflib \<Rightarrow> request_body \<Rightarrow> reconstruct_result" where
  "jsonToPdf JSON_parse lib body =
     (case (case body of Buffer jsonString \<Rightarrow> JSON_parse jsonString
                       | Direct jsonData \<Rightarrow> Inr jsonData) of
        Inl err \<Rightarrow> \<lparr> response = Status500 ''Failed to create PDF'' err, created = False \<rparr>
      | Inr BNull \<Rightarrow> \<lparr> response = Status500 ''Failed to create PDF'' TypeError, created = False \<rparr>
      | Inr (BFields pages) \<Rightarrow>
          (if \<not> truthy pages \<or> \<not> isArray pages
           then \<lparr> response = Status400 ''Invalid JSON format. Expected { pages: [...] }'',
                  created = False \<rparr>
           else (case build_pdf lib (array_items pages) of
                   Inl err \<Rightarrow> \<lparr> response = Status500 ''Failed to create PDF'' err, created = True \<rparr>
                 | Inr pdf \<Rightarrow> \<lparr> response = SentPdfJson pdf, created = True \<rparr>)))"

text \<open>The \<^verbatim>\<open>/tmp\<close> variant, lines 1224-1304.\<close>

definition jsonToPdf_tmp :: "pdflib \<Rightarrow> json_body \<Rightarrow> reconstruct_result" where
  "jsonToPdf_tmp lib body =
     (case body of
        BNull \<Rightarrow> \<lparr> response = Status500 ''Failed to create PDF'' TypeError, created = False \<rparr>
      | BFields pages \<Rightarrow>
          (if \<not> truthy pages \<or> \<not> isArray pages
           then \<lparr> response = Status400 ''Invalid JSON format. Expected { pages: [...] }'',
                  created = False \<rparr>
           else (case build_pdf lib (array_items pages) of
                   Inl err \<Rightarrow> \<lparr> response = Status500 ''Failed to create PDF'' err, created = True \<rparr>
                 | Inr pdf \<Rightarrow> \<lparr> response = SentPdf pdf, created = True \<rparr>)))"

text \<open>
  \<^verbatim>\<open>for (const pageData of pages)\<close> in \<^verbatim>\<open>src/app.js\<close>, where nothing has checked \<^verbatim>\<open>pages\<close>:
  only arrays and strings are iterable, and a character of a string is a page
  descriptor without \<^verbatim>\<open>width\<close> and \<^verbatim>\<open>height\<close>, which \<^verbatim>\<open>addPage\<close> rejects.
\<close>

fun iterate_pages :: "page_descriptor jsval \<Rightarrow> error + page_descriptor list" where
  "iterate_pages (JArr ps) = Inr ps"
| "iterate_pages (JStr []) = Inr []"
| "iterate_pages v = Inl TypeError"

text \<open>\<^verbatim>\<open>src/app.js\<close>, lines 60-99: no validation and no \<^verbatim>\<open>try\<close>.\<close>

definition jsonToPdf_app :: "pdflib \<Rightarrow> json_body \<Rightarrow> reconstruct_result" where
  "jsonToPdf_app lib body =
     (case body of
        BNull \<Rightarrow> \<lparr> response = NoResponse TypeError, created = False \<rparr>
      | BFields pages \<Rightarrow>
          (case create lib of
             Some err \<Rightarrow> \<lparr> response = NoResponse err, created = True \<rparr>
           | None \<Rightarrow>
               (case embedFont lib of
                  Some err \<Rightarrow> \<lparr> response = NoResponse err, created = True \<rparr>
                | None \<Rightarrow>
                    (case iterate_pages pages of
                       Inl err \<Rightarrow> \<lparr> response = NoResponse err, created = True \<rparr>
                     | Inr ps \<Rightarrow>
                         (case reconstruct_pages_app lib ps of
                            Inl err \<Rightarrow> \<lparr> response = NoResponse err, created = True \<rparr>
                          | Inr pgs \<Rightarrow>
                              (case save lib pgs of
                                 Some err \<Rightarrow> \<lparr> response = NoResponse err, created = True \<rparr>
                               | None \<Rightarrow> \<lparr> response = SentPdf pgs, created = True \<rparr>))))))"

subsection \<open>\<^verbatim>\<open>/pdfToJson\<close> with the upload staged on disk\<close>

text \<open>
  The files on disk, by path. \<^verbatim>\<open>readFileSync\<close> and \<^verbatim>\<open>unlinkSync\<close> throw on a missing
  file.
\<close>

type_synonym filesystem = "string \<rightharpoonup> bytes"

definition readFileSync :: "filesystem \<Rightarrow> string \<Rightarrow> error + bytes" where
  "readFileSync fs path = (case fs path of None \<Rightarrow> Inl ENOENT | Some data \<Rightarrow> Inr data)"

definition unlinkSync :: "filesystem \<Rightarrow> string \<Rightarrow> error + filesystem" where
  "unlinkSync fs path = (case fs path of None \<Rightarrow> Inl ENOENT | Some data \<Rightarrow> Inr (fs(path := None)))"

definition existsSync :: "filesystem \<Rightarrow> string \<Rightarrow> bool" where
  "existsSync fs path = (fs path \<noteq> None)"

record extract_result =
  ex_response :: response
  ex_fs :: filesystem

text \<open>
  The page loop: \<^verbatim>\<open>getDocument\<close> yields the pages, each of which \<^verbatim>\<open>getPage\<close> and
  \<^verbatim>\<open>getTextContent\<close> either deliver or reject.
\<close>

fun extract_pages :: "(source_page \<Rightarrow> 'p) \<Rightarrow> (error + source_page) list \<Rightarrow> error + 'p list" where
  "extract_pages f [] = Inr []"
| "extract_pages f (Inl err # rest) = Inl err"
| "extract_pages f (Inr page # rest) =
     (case extract_pages f rest of
        Inl err \<Rightarrow> Inl err
      | Inr pages \<Rightarrow> Inr (f page # pages))"

text \<open>\<^verbatim>\<open>src/app.js\<close>, lines 16-56: \<^verbatim>\<open>unlinkSync\<close> is the last step of the straight line.\<close>

definition pdfToJson_app :: "(bytes \<Rightarrow> error + (error + source_page) list) \<Rightarrow> filesystem
    \<Rightarrow> string option \<Rightarrow> extract_result" where
  "pdfToJson_app getDocument fs req_file =
     (case req_file of
        None \<Rightarrow> \<lparr> ex_response = NoResponse TypeError, ex_fs = fs \<rparr>
      | Some pdfPath \<Rightarrow>
          (case readFileSync fs pdfPath of
             Inl err \<Rightarrow> \<lparr> ex_response = NoResponse err, ex_fs = fs \<rparr>
           | Inr data \<Rightarrow>
               (case getDocument data of
                  Inl err \<Rightarrow> \<lparr> ex_response = NoResponse err, ex_fs = fs \<rparr>
                | Inr pdf \<Rightarrow>
                    (case extract_pages extract_page_app pdf of
                       Inl err \<Rightarrow> \<lparr> ex_response = NoResponse err, ex_fs = fs \<rparr>
                     | Inr pages \<Rightarrow>
                         (case unlinkSync fs pdfPath of
                            Inl err \<Rightarrow> \<lparr> ex_response = NoResponse err, ex_fs = fs \<rparr>
                          | Inr fs' \<Rightarrow> \<lparr> ex_response = SentPages pages, ex_fs = fs' \<rparr>)))))"

text \<open>The \<^verbatim>\<open>/tmp\<close> variant, lines 1061-1221: the body of the \<^verbatim>\<open>try\<close>, then the handler.\<close>

definition pdfToJson_try :: "ops_table \<Rightarrow> (bytes \<Rightarrow> error + (error + source_page) list)
    \<Rightarrow> filesystem \<Rightarrow> string \<Rightarrow> (error \<times> filesystem) + (extracted_page list \<times> filesystem)" where
  "pdfToJson_try OPS getDocument fs pdfPath =
     (case readFileSync fs pdfPath of
        Inl err \<Rightarrow> Inl (err, fs)
      | Inr data \<Rightarrow>
          (case getDocument data of
             Inl err \<Rightarrow> Inl (err, fs)
           | Inr pdf \<Rightarrow>
               (case extract_pages (extract_page OPS) pdf of
                  Inl err \<Rightarrow> Inl (err, fs)
                | Inr pages \<Rightarrow>
                    (case unlinkSync fs pdfPath of
                       Inl err \<Rightarrow> Inl (err, fs)
                     | Inr fs' \<Rightarrow> Inr (pages, fs')))))"

definition pdfToJson_tmp :: "ops_table \<Rightarrow> (bytes \<Rightarrow> error + (error + source_page) list)
    \<Rightarrow> filesystem \<Rightarrow> string option \<Rightarrow> extract_result" where
  "pdfToJson_tmp OPS getDocument fs req_file =
     (case req_file of
        None \<Rightarrow> \<lparr> ex_response = Status400 ''No file uploaded'', ex_fs = fs \<rparr>
      | Some pdfPath \<Rightarrow>
          (case pdfToJson_try OPS getDocument fs pdfPath of
             Inr (pages, fs') \<Rightarrow> \<lparr> ex_response = SentExtracted pages, ex_fs = fs' \<rparr>
           | Inl (err, fs') \<Rightarrow>
               \<lparr> ex_response = Status500 ''Failed to process PDF'' err,
                 ex_fs = (if existsSync fs' pdfPath
                          then (case unlinkSync fs' pdfPath of Inl e \<Rightarrow> fs' | Inr fs'' \<Rightarrow> fs'')
                          else fs') \<rparr>))"

section \<open>What a page is expected to show\<close>

text \<open>
  The draw call an element stands for: a text at its position with its size, an
  image, when its bytes embed, at its position with its placed size. A page shows
  its images in their order, then its texts in theirs; an image that does not embed
  shows nothing.
\<close>

definition text_op :: "real \<Rightarrow> element \<Rightarrow> drawop" where
  "text_op h el = DrawText (el_text el) (el_x el) (draw_text_y h (el_y el)) (text_size el)"

definition image_op :: "pdflib \<Rightarrow> real \<Rightarrow> element \<Rightarrow> drawop option" where
  "image_op lib h el =
     (if truthy (el_src el) then
        (case embed_image lib (el_src el) of
           Inl err \<Rightarrow> None
         | Inr embedded \<Rightarrow>
             Some (DrawImage embedded (el_x el) (draw_image_y h (el_y el) (el_height el))
                     (el_width el) (el_height el)))
      else None)"

definition expected_ops :: "pdflib \<Rightarrow> real \<Rightarrow> element list \<Rightarrow> drawop list" where
  "expected_ops lib h els =
     List.map_filter (image_op lib h) (filter (\<lambda>e. el_type e = ''image'') els)
     @ map (text_op h) (filter (\<lambda>e. el_type e = ''text'') els)"

definition expected_page :: "pdflib \<Rightarrow> page_descriptor \<Rightarrow> pdf_page" where
  "expected_page lib p =
     \<lparr> out_width = pg_width p, out_height = pg_height p,
       out_ops = expected_ops lib (pg_height p) (pg_elements p) \<rparr>"

section \<open>Concrete inputs\<close>

text \<open>A PNG file of one pixel, and its base64 text.\<close>

definition png_1x1 :: bytes where
  "png_1x1 =
     [137, 80, 78, 71, 13, 10, 26, 10, 0, 0, 0, 13, 73, 72, 68, 82, 0, 0, 0, 1, 0, 0, 0, 1,
      8, 6, 0, 0, 0, 31, 21, 196, 137, 0, 0, 0, 13, 73, 68, 65, 84, 120, 218, 99, 100, 248,
      207, 80, 15, 0, 3, 134, 1, 128, 90, 52, 125, 107, 0, 0, 0, 0, 73, 69, 78, 68, 174,
      66, 96, 130]"

definition png_1x1_base64 :: string where
  "png_1x1_base64 =
     ''iVBORw0KGgoAAAANSUhEUgAAAAEAAAABCAYAAAAfFcSJAAAADUlEQVR42mNk'' @
     ''+M9QDwADhgGAWjR9awAAAABJRU5ErkJggg==''"

text \<open>
  The document writer on the payloads used below: it embeds \<open>png_1x1\<close> as a PNG and
  rejects every other payload, embeds nothing as a JPEG (no JPEG occurs below), has
  no generic embed, decodes the base64 text of \<open>png_1x1\<close> to its bytes and a text without
  any base64 character to no bytes, draws a text whose size is a number, and saves.
\<close>

definition sample_lib :: pdflib where
  "sample_lib =
     \<lparr> create = None, embedFont = None,
       png_ok = (\<lambda>b. b = png_1x1),
       jpg_ok = (\<lambda>b. False),
       generic_ok = (\<lambda>b. False),
       sharp_format = (\<lambda>b. if b = png_1x1 then Inr ''png'' else Inl ParseError),
       from_base64 = (\<lambda>s. if s = png_1x1_base64 then png_1x1 else []),
       drawText_ok = (\<lambda>t sz. case sz of JNum r \<Rightarrow> True | _ \<Rightarrow> False),
       save = (\<lambda>pgs. None) \<rparr>"

definition text_A :: element where
  "text_A = \<lparr> el_type = ''text'', el_text = ''A'', el_x = 72, el_y = 92,
              el_fontSize = JNum 10, el_width = 8, el_height = 10,
              el_fontName = ''F1'', el_src = JUndefined \<rparr>"

definition image_B :: element where
  "image_B = \<lparr> el_type = ''image'', el_text = [], el_x = 100, el_y = 200,
               el_fontSize = JUndefined, el_width = 40, el_height = 30,
               el_fontName = [],
               el_src = JStr (''data:image/png;base64,'' @ png_1x1_base64) \<rparr>"

definition text_C :: element where
  "text_C = \<lparr> el_type = ''text'', el_text = ''C'', el_x = 72, el_y = 120,
              el_fontSize = JUndefined, el_width = 8, el_height = 10,
              el_fontName = ''F1'', el_src = JUndefined \<rparr>"

text \<open>An image element whose payload decodes to no bytes at all.\<close>

definition corrupt_image :: element where
  "corrupt_image = \<lparr> el_type = ''image'', el_text = [], el_x = 10, el_y = 20,
               el_fontSize = JUndefined, el_width = 40, el_height = 30,
               el_fontName = [], el_src = JStr ''data:image/png;base64,!!!!'' \<rparr>"

text \<open>The PNG under the label of a JPEG.\<close>

definition mislabelled_png :: element where
  "mislabelled_png = \<lparr> el_type = ''image'', el_text = [], el_x = 100, el_y = 200,
               el_fontSize = JUndefined, el_width = 40, el_height = 30,
               el_fontName = [],
               el_src = JStr (''data:image/jpeg;base64,'' @ png_1x1_base64) \<rparr>"

definition sample_item :: text_item where
  "sample_item =
     \<lparr> item_str = ''Hello'',
       item_transform = \<lparr> t0 = 12, t1 = 0, t2 = 0, t3 = 12, t4 = 72, t5 = 700 \<rparr>,
       item_width = 30, item_height = 12, item_fontName = ''g_d0_f1'' \<rparr>"

text \<open>A run whose height is not the length of the first column of its transform.\<close>

definition sheared_item :: text_item where
  "sheared_item =
     \<lparr> item_str = ''Hello'',
       item_transform = \<lparr> t0 = 3, t1 = 4, t2 = 0, t3 = 5, t4 = 72, t5 = 700 \<rparr>,
       item_width = 30, item_height = 10, item_fontName = ''g_d0_f1'' \<rparr>"

definition sample_image :: image_obj where
  "sample_image = \<lparr> img_width = 40, img_height = 30, img_data = Some [0, 0, 0, 255] \<rparr>"

text \<open>
  The parser's table, which defines \<^verbatim>\<open>transform\<close> (12, with the six numbers as its
  arguments), \<^verbatim>\<open>paintImageXObject\<close> (85) and \<^verbatim>\<open>paintImageXObjectRepeat\<close> (88) and has no
  \<^verbatim>\<open>setTransform\<close>; whether it still defines \<^verbatim>\<open>paintJpegXObject\<close> (82) depends on its
  version.
\<close>

definition pdfjs_OPS :: "bool \<Rightarrow> ops_table" where
  "pdfjs_OPS has_jpeg =
     \<lparr> OPS_paintImageXObject = Some 85, OPS_paintImageXObjectRepeat = Some 88,
       OPS_paintJpegXObject = (if has_jpeg then Some 82 else None),
       OPS_setTransform = None \<rparr>"

text \<open>
  The operator list of the content stream \<^verbatim>\<open>q 2 0 0 3 100 500 cm /Im0 Do Q\<close>:
  \<^verbatim>\<open>save\<close>, \<^verbatim>\<open>transform\<close>, \<^verbatim>\<open>paintImageXObject\<close>, \<^verbatim>\<open>restore\<close>.
\<close>

definition sample_ops :: operator_list where
  "sample_ops =
     [ (10, []),
       (12, [ArgNum 2, ArgNum 0, ArgNum 0, ArgNum 3, ArgNum 100, ArgNum 500]),
       (85, [ArgName ''img_p0_1'', ArgNum 40, ArgNum 30]),
       (11, []) ]"

definition sample_page :: source_page where
  "sample_page =
     \<lparr> vp_width = 612, vp_height = 792, content_items = [sample_item],
       getOperatorList = Inr sample_ops,
       objs_get = (\<lambda>n. if n = ''img_p0_1'' then Inr (Some sample_image) else Inl ObjError),
       toDataURL = (\<lambda>i. Inr (''data:image/png;base64,'' @ png_1x1_base64)) \<rparr>"

section \<open>Auxiliary facts\<close>

subsection \<open>Rounding\<close>

lemma pow2_powr: "pow2 e = 2 powr (of_int e)"
proof (cases "0 \<le> e")
  case True
  then have "2 powr (of_int e) = (2::real) powr (real (nat e))" by simp
  also have "\<dots> = 2 ^ nat e" by (simp add: powr_realpow)
  finally show ?thesis using True by (simp add: pow2_def)
next
  case False
  then have "(2::real) powr (of_int e) = 2 powr (- real (nat (- e)))" by simp
  also have "\<dots> = 1 / 2 powr (real (nat (- e)))" by (simp add: powr_minus divide_inverse)
  also have "\<dots> = 1 / 2 ^ nat (- e)" by (simp add: powr_realpow)
  finally show ?thesis using False by (simp add: pow2_def)
qed

lemma pow2_pos: "0 < pow2 e"
  by (simp add: pow2_powr)

lemma pow2_add: "pow2 (a + b) = pow2 a * pow2 b"
  by (simp add: pow2_powr powr_add)

lemma pow2_mono: "a \<le> b \<Longrightarrow> pow2 a \<le> pow2 b"
  by (simp add: pow2_powr)

lemma rne_error: "\<bar>of_int (rne z) - z\<bar> \<le> 1 / 2"
proof -
  have "of_int \<lfloor>z\<rfloor> \<le> z" "z < of_int \<lfloor>z\<rfloor> + 1" by linarith+
  then show ?thesis by (auto simp: rne_def Let_def)
qed

lemma rne_of_int: "rne (of_int n) = n"
  by (simp add: rne_def)

lemma expo_eq:
  assumes "pow2 e \<le> \<bar>x\<bar>" "\<bar>x\<bar> < pow2 (e + 1)"
  shows "\<lfloor>log 2 \<bar>x\<bar>\<rfloor> = e"
proof -
  have pos: "0 < \<bar>x\<bar>" using assms(1) pow2_pos[of e] by linarith
  show ?thesis
    using assms by (simp add: floor_log_eq_powr_iff[OF pos] pow2_powr)
qed

lemma fl_eval:
  assumes "- 1022 \<le> e" "pow2 e \<le> \<bar>x\<bar>" "\<bar>x\<bar> < pow2 (e + 1)"
  shows "fl x = pow2 (e - 52) * of_int (rne (x / pow2 (e - 52)))"
proof -
  have "x \<noteq> 0" using assms(2) pow2_pos[of e] by auto
  then show ?thesis using expo_eq[OF assms(2,3)] assms(1) by (simp add: fl_def Let_def max_def)
qed

lemma fl_of_int:
  assumes "\<bar>n\<bar> < 2 ^ 53"
  shows "fl (of_int n) = of_int n"
proof (cases "n = 0")
  case True
  then show ?thesis by (simp add: fl_def)
next
  case False
  define x :: real where "x = of_int n"
  define L where "L = \<lfloor>log 2 \<bar>x\<bar>\<rfloor>"
  have x1: "1 \<le> \<bar>x\<bar>" using False by (simp add: x_def)
  have x2: "\<bar>x\<bar> < 2 ^ 53" using assms unfolding x_def
    by (metis of_int_abs of_int_less_numeral_power_cancel_iff)
  have "0 \<le> log 2 \<bar>x\<bar>" using x1 by simp
  then have L0: "0 \<le> L" by (simp add: L_def)
  have "log 2 \<bar>x\<bar> < 53" using x1 x2 by (simp add: log_less_iff powr_realpow[symmetric])
  then have L53: "L < 53" unfolding L_def by linarith
  define k where "k = nat (52 - L)"
  have q: "pow2 (L - 52) = 1 / 2 ^ k"
  proof (cases "L = 52")
    case True then show ?thesis by (simp add: pow2_def k_def)
  next
    case False
    with L53 have "L - 52 < 0" by simp
    then show ?thesis by (simp add: pow2_def k_def)
  qed
  have "x / pow2 (L - 52) = of_int (n * 2 ^ k)" by (simp add: q x_def)
  then have "rne (x / pow2 (L - 52)) = n * 2 ^ k" by (simp only: rne_of_int)
  moreover have "max L (- 1022) = L" using L0 by simp
  moreover have "x \<noteq> 0" using x1 by auto
  ultimately have "fl x = pow2 (L - 52) * of_int (n * 2 ^ k)"
    by (simp add: fl_def Let_def L_def[symmetric])
  also have "\<dots> = x" by (simp add: q x_def)
  finally show ?thesis by (simp add: x_def)
qed

lemma fl_numeral: "(numeral w :: int) < 2 ^ 53 \<Longrightarrow> fl (numeral w) = numeral w"
  using fl_of_int[of "numeral w"] by simp

lemma fl_zero: "fl 0 = 0"
  by (simp add: fl_def)

lemma fl_error:
  assumes "\<bar>x\<bar> \<le> 2 ^ 22"
  shows "\<bar>fl x - x\<bar> \<le> 1 / 2 ^ 31"
proof (cases "x = 0")
  case True
  then show ?thesis by (simp add: fl_zero)
next
  case False
  define L where "L = max \<lfloor>log 2 \<bar>x\<bar>\<rfloor> (- 1022)"
  define q where "q = pow2 (L - 52)"
  have "log 2 \<bar>x\<bar> \<le> 22" using False assms by (simp add: log_le_iff powr_realpow[symmetric])
  then have "\<lfloor>log 2 \<bar>x\<bar>\<rfloor> \<le> 22" by linarith
  then have "L \<le> 22" by (simp add: L_def)
  then have "q \<le> pow2 (- 30)" unfolding q_def by (intro pow2_mono) simp
  then have q30: "q \<le> 1 / 2 ^ 30" by (simp add: pow2_def)
  have qpos: "0 < q" by (simp add: q_def pow2_pos)
  have "fl x = q * of_int (rne (x / q))" using False by (simp add: fl_def Let_def L_def q_def)
  then have "fl x - x = q * (of_int (rne (x / q)) - x / q)" using qpos by (simp add: algebra_simps)
  then have "\<bar>fl x - x\<bar> = q * \<bar>of_int (rne (x / q)) - x / q\<bar>" using qpos by (simp add: abs_mult)
  also have "\<dots> \<le> q * (1 / 2)" using rne_error[of "x / q"] qpos by (intro mult_left_mono) simp_all
  also have "\<dots> \<le> 1 / 2 ^ 30 * (1 / 2)" using q30 by simp
  finally show ?thesis by simp
qed

lemma fl_half: "fl (1 / 2) = 1 / 2"
  using fl_eval[of "- 1" "1 / 2"] by (simp add: pow2_def rne_def)

lemma fl_big: "fl (10 ^ 16 - 1 / 2) = 10 ^ 16"
  using fl_eval[of 53 "10 ^ 16 - 1 / 2"] by (simp add: pow2_def rne_def)


lemma fl_error_num: "\<bar>x\<bar> \<le> 4194304 \<Longrightarrow> \<bar>fl x - x\<bar> \<le> 1 / 2147483648"
  using fl_error[of x] by simp

subsection \<open>The sort\<close>

lemma paint_cmp_not_text: "el_type v \<noteq> ''text'' \<Longrightarrow> paint_cmp v w \<le> 0"
  by (simp add: paint_cmp_def)

lemma insert_by_front: "el_type v \<noteq> ''text'' \<Longrightarrow> insert_by paint_cmp v ws = v # ws"
  by (cases ws) (simp_all add: paint_cmp_not_text)

lemma insert_by_text:
  "el_type v = ''text'' \<Longrightarrow> \<forall>w\<in>set xs. el_type w = ''image'' \<Longrightarrow> \<forall>w\<in>set ys. el_type w = ''text''
   \<Longrightarrow> insert_by paint_cmp v (xs @ ys) = xs @ v # ys"
proof (induction xs)
  case Nil
  then show ?case by (cases ys) (auto simp: paint_cmp_def)
next
  case (Cons a xs)
  then show ?case by (auto simp: paint_cmp_def)
qed

lemma js_sort_images_then_texts:
  "\<forall>e\<in>set els. el_type e = ''text'' \<or> el_type e = ''image'' \<Longrightarrow>
   js_sort paint_cmp els =
     filter (\<lambda>e. el_type e = ''image'') els @ filter (\<lambda>e. el_type e = ''text'') els"
proof (induction els)
  case Nil
  show ?case by simp
next
  case (Cons a els)
  let ?I = "filter (\<lambda>e. el_type e = ''image'') els"
  let ?T = "filter (\<lambda>e. el_type e = ''text'') els"
  have IH: "js_sort paint_cmp els = ?I @ ?T"
    using Cons by simp
  have a: "el_type a = ''text'' \<or> el_type a = ''image''"
    using Cons.prems by simp
  show ?case
  proof (cases "el_type a = ''image''")
    case True
    then have "js_sort paint_cmp (a # els) = a # ?I @ ?T"
      by (simp add: IH insert_by_front)
    with True show ?thesis by simp
  next
    case False
    with a have t: "el_type a = ''text''" by simp
    have "insert_by paint_cmp a (?I @ ?T) = ?I @ a # ?T"
      by (rule insert_by_text[OF t]) simp_all
    then have "js_sort paint_cmp (a # els) = ?I @ a # ?T"
      by (simp only: js_sort.simps IH)
    with t show ?thesis by simp
  qed
qed

subsection \<open>The backward search\<close>

lemma search_back_undefined: "OPS_setTransform OPS = None \<Longrightarrow> search_back OPS ops j = None"
  by (induction j) simp_all

subsection \<open>The draw loop\<close>

lemma draw_images:
  "\<forall>x\<in>set imgs. el_type x = ''image'' \<Longrightarrow>
   draw_elements lib h imgs ops = Inr (ops @ List.map_filter (image_op lib h) imgs)"
proof (induction imgs arbitrary: ops)
  case Nil
  show ?case by (simp add: map_filter_simps)
next
  case (Cons x imgs)
  then have x: "el_type x = ''image''" and rest: "\<forall>x\<in>set imgs. el_type x = ''image''" by simp_all
  show ?case
  proof (cases "image_op lib h x")
    case None
    then have "draw_element lib h x ops = Inr ops"
      using x by (auto simp: draw_element_def image_op_def split: if_splits sum.splits)
    with None Cons.IH[OF rest] show ?thesis by (simp add: map_filter_simps)
  next
    case (Some d)
    then have "draw_element lib h x ops = Inr (ops @ [d])"
      using x by (auto simp: draw_element_def image_op_def split: if_splits sum.splits)
    with Some Cons.IH[OF rest] show ?thesis by (simp add: map_filter_simps)
  qed
qed

lemma draw_texts:
  "\<forall>x\<in>set txts. el_type x = ''text'' \<and> drawText_ok lib (el_text x) (text_size x) \<Longrightarrow>
   draw_elements lib h txts ops = Inr (ops @ map (text_op h) txts)"
proof (induction txts arbitrary: ops)
  case Nil
  show ?case by simp
next
  case (Cons x txts)
  then have "draw_element lib h x ops = Inr (ops @ [text_op h x])"
    by (simp add: draw_element_def text_op_def)
  with Cons show ?case by simp
qed

lemma draw_elements_append:
  "draw_elements lib h (xs @ ys) ops =
     (case draw_elements lib h xs ops of
        Inl err \<Rightarrow> Inl err
      | Inr ops' \<Rightarrow> draw_elements lib h ys ops')"
  by (induction xs arbitrary: ops) (auto split: sum.splits)

lemma reconstruct_page_expected:
  assumes typed: "\<forall>x\<in>set (pg_elements p). el_type x = ''text'' \<or> el_type x = ''image''"
    and texts: "\<forall>x\<in>set (pg_elements p). el_type x = ''text'' \<longrightarrow> drawText_ok lib (el_text x) (text_size x)"
  shows "reconstruct_page lib p = Inr (expected_page lib p)"
proof -
  let ?I = "filter (\<lambda>e. el_type e = ''image'') (pg_elements p)"
  let ?T = "filter (\<lambda>e. el_type e = ''text'') (pg_elements p)"
  have s: "sortedElements (pg_elements p) = ?I @ ?T"
    unfolding sortedElements_def by (rule js_sort_images_then_texts[OF typed])
  have i: "draw_elements lib (pg_height p) ?I [] = Inr (List.map_filter (image_op lib (pg_height p)) ?I)"
    using draw_images[of ?I lib "pg_height p" "[]"] by simp
  have t: "draw_elements lib (pg_height p) ?T ops = Inr (ops @ map (text_op (pg_height p)) ?T)" for ops
    by (rule draw_texts) (use texts in simp)
  have "draw_elements lib (pg_height p) (?I @ ?T) [] = Inr (expected_ops lib (pg_height p) (pg_elements p))"
    by (simp only: draw_elements_append i t expected_ops_def sum.case)
  then show ?thesis by (simp add: reconstruct_page_def s expected_page_def)
qed

lemma reconstruct_pages_expected:
  assumes "\<forall>p\<in>set pages. \<forall>x\<in>set (pg_elements p). el_type x = ''text'' \<or> el_type x = ''image''"
    and "\<forall>p\<in>set pages. \<forall>x\<in>set (pg_elements p).
           el_type x = ''text'' \<longrightarrow> drawText_ok lib (el_text x) (text_size x)"
  shows "reconstruct_pages lib pages = Inr (map (expected_page lib) pages)"
  using assms
proof (induction pages)
  case Nil
  show ?case by simp
next
  case (Cons p pages)
  then have "reconstruct_page lib p = Inr (expected_page lib p)"
    by (intro reconstruct_page_expected) simp_all
  moreover have "reconstruct_pages lib pages = Inr (map (expected_page lib) pages)"
    using Cons by simp
  ultimately show ?case by simp
qed

lemma expected_ops_skip:
  "el_type e = ''image'' \<Longrightarrow> embed_image lib (el_src e) = Inl err \<Longrightarrow>
   expected_ops lib h (pre @ e # post) = expected_ops lib h (pre @ post)"
  by (simp add: expected_ops_def image_op_def map_filter_simps List.map_filter_def)

subsection \<open>A square root\<close>

lemma sqrt_25: "sqrt 25 = 5"
  using real_sqrt_abs[of 5] by simp

section \<open>The claims\<close>

subsection \<open>Coordinates and transforms\<close>

text \<open>
  C1. The claim: the stored \<open>y\<close> of every extracted element, text as well as image, is
  in the top-left, y-down frame. The text path of \<^verbatim>\<open>/pdfToJson\<close> stores \<^verbatim>\<open>transform[5]\<close>
  as it is: on a page 792 high a run at raw \<open>y = 700\<close> is stored at 700, where the image
  conversion of the same handler and the text conversion of \<^verbatim>\<open>extractPageElements\<close>
  give 92, and \<^verbatim>\<open>/jsonToPdf\<close>, which converts out of the frame, draws it back at 92.
\<close>

theorem text_y_not_converted:
  "el_y (textElement sample_item) = 700
   \<and> el_y (textElement_app sample_item) = 700
   \<and> extract_image_y 792 700 0 = 92
   \<and> el_y (textElement_api 792 sample_item) = 92
   \<and> draw_text_y 792 (el_y (textElement sample_item)) = 92"
  by (simp add: textElement_def textElement_app_def textElement_api_def sample_item_def
      extract_image_y_def draw_text_y_def fl_numeral)

text \<open>
  C2. The claim: for all \<open>y\<close> and all \<open>h > 0\<close> the reconstructor's conversion undoes the
  extractor's to within \<open>1e-6\<close>. In double arithmetic it does not for all magnitudes:
  on a page \<open>1e16\<close> high the ordinate \<open>0.5\<close> is stored as \<open>1e16\<close> and comes back as \<open>0\<close>.
\<close>

theorem inverse_law_fails:
  "draw_image_y (10 ^ 16) (extract_image_y (10 ^ 16) (1 / 2) 0) 0 = 0
   \<and> \<not> \<bar>draw_image_y (10 ^ 16) (extract_image_y (10 ^ 16) (1 / 2) 0) 0 - 1 / 2\<bar> \<le> 1 / 10 ^ 6"
proof -
  have "extract_image_y (10 ^ 16) (1 / 2) 0 = fl (10 ^ 16 - fl (1 / 2))"
    by (simp add: extract_image_y_def)
  also have "\<dots> = 10 ^ 16" by (simp only: fl_half fl_big)
  finally have "extract_image_y (10 ^ 16) (1 / 2) 0 = 10 ^ 16" .
  then have "draw_image_y (10 ^ 16) (extract_image_y (10 ^ 16) (1 / 2) 0) 0 = 0"
    by (simp add: draw_image_y_def fl_zero)
  then show ?thesis by simp
qed

text \<open>
  C2, as amended. For a page height \<open>0 < h \<le> 1e6\<close>, an ordinate \<open>|y| \<le> 1e6\<close> and
  element heights between \<open>0\<close> and \<open>1e6\<close>, the extractor's image conversion
  \<open>h - (y + height)\<close> followed by the reconstructor's \<open>h - c - height\<close>, both in double
  arithmetic, is within \<open>1e-6\<close> of \<open>y\<close> when the two use one height, \<open>0\<close> included, and
  within \<open>1e-6\<close> of \<open>y\<close> plus the extractor's height minus the reconstructor's otherwise;
  and the text conversion \<open>h - y\<close> of \<^verbatim>\<open>extractPageElements\<close> followed by the reconstructor's
  \<open>h - c\<close> is within \<open>1e-6\<close> of \<open>y\<close>. What the text path of \<^verbatim>\<open>/pdfToJson\<close> stores is C1.
\<close>

theorem coordinate_round_trip:
  assumes "0 < h" "h \<le> 10 ^ 6" "\<bar>y\<bar> \<le> 10 ^ 6"
    and "0 \<le> hn" "hn \<le> 10 ^ 6" "0 \<le> hp" "hp \<le> 10 ^ 6"
  shows "\<bar>draw_image_y h (extract_image_y h y 0) 0 - y\<bar> \<le> 1 / 10 ^ 6
       \<and> \<bar>draw_image_y h (extract_image_y h y hn) hn - y\<bar> \<le> 1 / 10 ^ 6
       \<and> \<bar>draw_image_y h (extract_image_y h y hn) hp - (y + hn - hp)\<bar> \<le> 1 / 10 ^ 6
       \<and> (t5 (item_transform item) = y \<longrightarrow>
            \<bar>draw_text_y h (el_y (textElement_api h item)) - y\<bar> \<le> 1 / 10 ^ 6)"
proof -
  have h: "0 < h" "h \<le> 1000000" and y: "\<bar>y\<bar> \<le> 1000000"
    and hn: "0 \<le> hn" "hn \<le> 1000000" and hp: "0 \<le> hp" "hp \<le> 1000000"
    using assms by simp_all
  have gen: "\<bar>draw_image_y h (extract_image_y h y n) p - (y + n - p)\<bar> \<le> 1 / 1000000"
    if n: "0 \<le> n" "n \<le> 1000000" and p: "0 \<le> p" "p \<le> 1000000" for n p
  proof -
    define a where "a = fl (y + n)"
    define c where "c = fl (h - a)"
    define b where "b = fl (h - c)"
    define r where "r = fl (b - p)"
    have ea: "\<bar>a - (y + n)\<bar> \<le> 1 / 2147483648"
      unfolding a_def by (rule fl_error_num) (use y n in linarith)
    have ec: "\<bar>c - (h - a)\<bar> \<le> 1 / 2147483648"
      unfolding c_def by (rule fl_error_num) (use ea h y n in linarith)
    have eb: "\<bar>b - (h - c)\<bar> \<le> 1 / 2147483648"
      unfolding b_def by (rule fl_error_num) (use ea ec h y n in linarith)
    have er: "\<bar>r - (b - p)\<bar> \<le> 1 / 2147483648"
      unfolding r_def by (rule fl_error_num) (use ea ec eb h y n p in linarith)
    have "draw_image_y h (extract_image_y h y n) p = r"
      by (simp add: draw_image_y_def extract_image_y_def a_def c_def b_def r_def)
    moreover have "\<bar>r - (y + n - p)\<bar> \<le> 1 / 1000000"
      using ea ec eb er by linarith
    ultimately show ?thesis by simp
  qed
  have text_pair: "\<bar>fl (h - fl (h - y)) - y\<bar> \<le> 1 / 1000000"
  proof -
    define a where "a = fl (h - y)"
    have ea: "\<bar>a - (h - y)\<bar> \<le> 1 / 2147483648"
      unfolding a_def by (rule fl_error_num) (use h y in linarith)
    have eb: "\<bar>fl (h - a) - (h - a)\<bar> \<le> 1 / 2147483648"
      by (rule fl_error_num) (use ea h y in linarith)
    show ?thesis using ea eb unfolding a_def by linarith
  qed
  have "\<bar>draw_text_y h (el_y (textElement_api h item)) - y\<bar> \<le> 1 / 10 ^ 6"
    if "t5 (item_transform item) = y"
    using text_pair that by (simp add: draw_text_y_def textElement_api_def)
  with gen[of 0 0] gen[OF hn hn] gen[OF hn hp] show ?thesis by simp
qed

theorem coordinate_round_trip_witness:
  "\<bar>draw_image_y 792 (extract_image_y 792 700 0) 0 - 700\<bar> \<le> 1 / 10 ^ 6
   \<and> draw_image_y 792 (extract_image_y 792 700 30) 30 = 700"
  using coordinate_round_trip[of 792 700 30 30 sample_item]
  by (simp add: draw_image_y_def extract_image_y_def fl_numeral)

text \<open>
  C4. The claim: an image is placed by the nearest set-transform before it. The
  search compares with \<^verbatim>\<open>OPS.setTransform\<close>, which the parser's table does not define,
  so it finds nothing in any operator list: the image painted right after
  \<^verbatim>\<open>2 0 0 3 100 500 cm\<close> is extracted at \<open>(0, 0)\<close> with its natural 40 by 30.
\<close>

theorem transform_never_found:
  "find_ctm (pdfjs_OPS has_jpeg) ops j = None
   \<and> image_at (pdfjs_OPS has_jpeg) sample_page sample_ops 2
       = Some (Placed \<lparr> el_type = ''image'', el_text = [], el_x = 0, el_y = 0,
                        el_fontSize = JUndefined, el_width = 40, el_height = 30,
                        el_fontName = [],
                        el_src = JStr (''data:image/png;base64,'' @ png_1x1_base64) \<rparr>)
   \<and> xp_elements (extract_page (pdfjs_OPS has_jpeg) sample_page)
       = [Placed (textElement sample_item),
          Placed \<lparr> el_type = ''image'', el_text = [], el_x = 0, el_y = 0,
                   el_fontSize = JUndefined, el_width = 40, el_height = 30,
                   el_fontName = [],
                   el_src = JStr (''data:image/png;base64,'' @ png_1x1_base64) \<rparr>]"
proof -
  let ?OPS = "pdfjs_OPS has_jpeg"
  let ?url = "''data:image/png;base64,'' @ png_1x1_base64"
  have f: "find_ctm ?OPS ops j = None" for ops j
    unfolding find_ctm_def by (rule search_back_undefined) (simp add: pdfjs_OPS_def)
  have paints: "paints_image ?OPS 85" "\<not> paints_image ?OPS 10" "\<not> paints_image ?OPS 12"
    "\<not> paints_image ?OPS 11"
    by (simp_all add: paints_image_def pdfjs_OPS_def)
  have ops: "fst (sample_ops ! 0) = 10" "fst (sample_ops ! 1) = 12" "fst (sample_ops ! 2) = 85"
    "fst (sample_ops ! 3) = 11" "first_arg (snd (sample_ops ! 2)) = Some (ArgName ''img_p0_1'')"
    by (simp_all add: sample_ops_def)
  have page: "objs_get sample_page ''img_p0_1'' = Inr (Some sample_image)"
    "toDataURL sample_page sample_image = Inr ?url" "vp_height sample_page = 792"
    "img_data sample_image \<noteq> None"
    by (simp_all add: sample_page_def sample_image_def)
  have at2: "image_at ?OPS sample_page sample_ops 2
       = Some (Placed (default_placement sample_image ?url))"
    using page(4) by (simp add: image_at_def f ops paints page(1,2,3) image_element_def)
  have at0: "image_at ?OPS sample_page sample_ops 0 = None"
    and at1: "image_at ?OPS sample_page sample_ops (Suc 0) = None"
    and at3: "image_at ?OPS sample_page sample_ops 3 = None"
    by (simp_all add: image_at_def paints sample_ops_def)
  have up: "[0 ..< length sample_ops] = [0, Suc 0, 2, 3]"
    by (simp add: sample_ops_def upt_rec)
  have "getOperatorList sample_page = Inr sample_ops" by (simp add: sample_page_def)
  then have "extract_images ?OPS sample_page = [Placed (default_placement sample_image ?url)]"
    by (simp add: extract_images_def up map_filter_simps at0 at1 at2 at3 del: upt_Suc)
  moreover have "content_items sample_page = [sample_item]" by (simp add: sample_page_def)
  ultimately show ?thesis using f at2
    by (simp add: extract_page_def textElements_def default_placement_def sample_image_def)
qed

text \<open>
  C5. The claim: every element placed by a transform gets the scale factors
  \<open>hypot(a, b)\<close> and \<open>hypot(c, d)\<close>. A text run of height 10 under the transform
  \<open>[3, 4, 0, 5, 72, 700]\<close> is stored with \<open>fontSize\<close> 10, where \<open>hypot(3, 4)\<close> is 5.
\<close>

theorem font_size_not_hypot:
  "el_fontSize (textElement sheared_item) = JNum 10
   \<and> hypot (t0 (item_transform sheared_item)) (t1 (item_transform sheared_item)) = 5"
  by (simp add: textElement_def sheared_item_def hypot_def sqrt_25 fl_numeral)

text \<open>
  C5, as amended. Given an array \<open>[a, b, c, d, e, f]\<close> as \<^verbatim>\<open>ctm\<close>, the placement of an image
  multiplies its natural width by \<open>hypot(a, b)\<close> and its natural height by
  \<open>hypot(c, d)\<close>, in double arithmetic; for a diagonal matrix with a double \<open>s > 0\<close> on
  the diagonal both factors are \<open>s\<close>. A text run has one scale, its \<open>fontSize\<close>:
  \<open>hypot(a, b)\<close> in \<^verbatim>\<open>src/app.js\<close>, and in the in-memory and \<^verbatim>\<open>/tmp\<close> variants
  \<^verbatim>\<open>item.height\<close> when that is not zero and \<open>hypot(a, b)\<close> when it is.
\<close>

theorem scale_factors:
  assumes "0 < s" and "fl s = s"
  shows "(\<exists>el. image_element h img url (Some (ArgMatrix m)) = Placed el
            \<and> el_x el = t4 m \<and> el_y el = fl (h - fl (t5 m + img_height img))
            \<and> el_width el = fl (img_width img * fl (sqrt (t0 m * t0 m + t1 m * t1 m)))
            \<and> el_height el = fl (img_height img * fl (sqrt (t2 m * t2 m + t3 m * t3 m))))
       \<and> scaleX \<lparr>t0 = s, t1 = 0, t2 = 0, t3 = s, t4 = e, t5 = f\<rparr> = s
       \<and> scaleY \<lparr>t0 = s, t1 = 0, t2 = 0, t3 = s, t4 = e, t5 = f\<rparr> = s
       \<and> (\<exists>el. image_element h img url (Some (ArgMatrix \<lparr>t0 = s, t1 = 0, t2 = 0, t3 = s, t4 = e, t5 = f\<rparr>))
                 = Placed el
            \<and> el_width el = fl (img_width img * s) \<and> el_height el = fl (img_height img * s))
       \<and> el_fontSize (textElement_app item)
            = JNum (fl (sqrt (t0 (item_transform item) * t0 (item_transform item)
                              + t1 (item_transform item) * t1 (item_transform item))))
       \<and> el_fontSize (textElement item)
            = JNum (if item_height item \<noteq> 0 then item_height item
                    else fl (sqrt (t0 (item_transform item) * t0 (item_transform item)
                                   + t1 (item_transform item) * t1 (item_transform item))))"
  using assms
  by (simp add: image_element_def scaleX_def scaleY_def hypot_def textElement_def
      textElement_app_def extract_image_y_def Let_def)

theorem scale_factors_witness:
  "image_element 792 sample_image [] (Some (ArgMatrix \<lparr>t0 = 2, t1 = 0, t2 = 0, t3 = 2, t4 = 10, t5 = 20\<rparr>))
     = Placed \<lparr> el_type = ''image'', el_text = [], el_x = 10, el_y = 742,
                el_fontSize = JUndefined, el_width = 80, el_height = 60,
                el_fontName = [], el_src = JStr [] \<rparr>"
proof -
  have p: "(0::real) < 2" by simp
  have d: "fl 2 = 2" by (simp add: fl_numeral)
  from scale_factors[OF p d, of 792 sample_image "[]" "\<lparr>t0 = 2, t1 = 0, t2 = 0, t3 = 2, t4 = 10, t5 = 20\<rparr>" 10 20]
  have "scaleX \<lparr>t0 = 2, t1 = 0, t2 = 0, t3 = 2, t4 = 10, t5 = 20\<rparr> = 2"
    and "scaleY \<lparr>t0 = 2, t1 = 0, t2 = 0, t3 = 2, t4 = 10, t5 = 20\<rparr> = 2" by simp_all
  then show ?thesis
    by (simp add: image_element_def sample_image_def extract_image_y_def fl_numeral)
qed

subsection \<open>Paint order\<close>

text \<open>
  C3. On a page whose elements are text and image elements, \<^verbatim>\<open>sortedElements\<close> is all
  images in their input order followed by all texts in their input order; so
  \<open>[text A, image B, text C]\<close> is painted as \<open>[B, A, C]\<close>.
\<close>

theorem paint_order:
  assumes "\<forall>e\<in>set els. el_type e = ''text'' \<or> el_type e = ''image''"
  shows "sortedElements els =
     filter (\<lambda>e. el_type e = ''image'') els @ filter (\<lambda>e. el_type e = ''text'') els"
  unfolding sortedElements_def by (rule js_sort_images_then_texts[OF assms])

theorem paint_order_witness:
  "sortedElements [text_A, image_B, text_C] = [image_B, text_A, text_C]"
  using paint_order[of "[text_A, image_B, text_C]"]
  by (simp add: text_A_def image_B_def text_C_def)

subsection \<open>Reconstruction\<close>

text \<open>
  C6. The claim: the format of an image is taken from its bytes, never from the
  label of its data URI. \<^verbatim>\<open>/jsonToPdf\<close> takes it from the label: a PNG labelled
  \<^verbatim>\<open>image/jpeg\<close> goes to \<^verbatim>\<open>embedJpg\<close>, is rejected there and is drawn nowhere, while
  the same bytes embed under the label \<^verbatim>\<open>image/png\<close>, and in \<^verbatim>\<open>/api/json-to-pdf\<close>, which
  inspects them.
\<close>

theorem mislabelled_png_dropped:
  "embed_image sample_lib (el_src mislabelled_png) = Inl EmbedError
   \<and> draw_element sample_lib 792 mislabelled_png [] = Inr []
   \<and> embed_image sample_lib (el_src image_B) = Inr (Embedded Png png_1x1)
   \<and> embed_image_api sample_lib png_1x1_base64 = Inr (Embedded Png png_1x1)"
proof -
  have j: "strip_data_uri (''data:image/jpeg;base64,'' @ png_1x1_base64) = png_1x1_base64"
    by (simp add: strip_data_uri_def word_char_def)
  have p: "strip_data_uri (''data:image/png;base64,'' @ png_1x1_base64) = png_1x1_base64"
    by (simp add: strip_data_uri_def word_char_def)
  have nj: "\<not> js_includes (''data:image/jpeg;base64,'' @ png_1x1_base64) ''image/png''"
    by (simp add: png_1x1_base64_def)
  have ij: "js_includes (''data:image/jpeg;base64,'' @ png_1x1_base64) ''image/jpeg''"
    by simp
  have ip: "js_includes (''data:image/png;base64,'' @ png_1x1_base64) ''image/png''"
    by simp
  have d: "from_base64 sample_lib png_1x1_base64 = png_1x1" by (simp add: sample_lib_def)
  have ok: "png_ok sample_lib png_1x1" "\<not> jpg_ok sample_lib png_1x1"
    "sharp_format sample_lib png_1x1 = Inr ''png''"
    by (simp_all add: sample_lib_def)
  have a: "embed_image sample_lib (el_src mislabelled_png) = Inl EmbedError"
    by (simp add: mislabelled_png_def embed_image_def j nj ij d ok embedJpg_def Let_def
        del: append.simps js_includes.simps)
  have b: "embed_image sample_lib (el_src image_B) = Inr (Embedded Png png_1x1)"
    by (simp add: image_B_def embed_image_def p ip d ok embedPng_def Let_def
        del: append.simps js_includes.simps)
  have c: "embed_image_api sample_lib png_1x1_base64 = Inr (Embedded Png png_1x1)"
    by (simp add: embed_image_api_def d ok embedPng_def Let_def)
  have "el_type mislabelled_png = ''image''" "truthy (el_src mislabelled_png)"
    by (simp_all add: mislabelled_png_def)
  then have "draw_element sample_lib 792 mislabelled_png [] = Inr []"
    using a by (simp add: draw_element_def)
  with a b c show ?thesis by simp
qed

text \<open>
  C8. On pages of text and image elements whose texts the writer draws, a request
  is answered with success and every page shows all its texts and all its images
  that embed, whatever fails to embed: a page with an image element whose bytes
  do not embed shows exactly what the other elements of the page stand for.
\<close>

theorem graceful_degradation:
  assumes "\<forall>p\<in>set pages. \<forall>x\<in>set (pg_elements p). el_type x = ''text'' \<or> el_type x = ''image''"
    and "\<forall>p\<in>set pages. \<forall>x\<in>set (pg_elements p).
           el_type x = ''text'' \<longrightarrow> drawText_ok lib (el_text x) (text_size x)"
    and "create lib = None" and "embedFont lib = None"
    and "save lib (map (expected_page lib) pages) = None"
    and "p \<in> set pages" and "pg_elements p = pre @ e # post"
    and "el_type e = ''image''" and "embed_image lib (el_src e) = Inl err"
  shows "jsonToPdf JSON_parse lib (Direct (BFields (JArr pages)))
           = \<lparr> response = SentPdfJson (map (expected_page lib) pages), created = True \<rparr>
       \<and> jsonToPdf_tmp lib (BFields (JArr pages))
           = \<lparr> response = SentPdf (map (expected_page lib) pages), created = True \<rparr>
       \<and> out_ops (expected_page lib p)
           = List.map_filter (image_op lib (pg_height p)) (filter (\<lambda>e. el_type e = ''image'') (pre @ post))
             @ map (text_op (pg_height p)) (filter (\<lambda>e. el_type e = ''text'') (pre @ post))"
proof -
  have "reconstruct_pages lib pages = Inr (map (expected_page lib) pages)"
    by (rule reconstruct_pages_expected[OF assms(1,2)])
  then have b: "build_pdf lib pages = Inr (map (expected_page lib) pages)"
    using assms(3,4,5) by (simp add: build_pdf_def)
  have "out_ops (expected_page lib p) = expected_ops lib (pg_height p) (pre @ post)"
    using expected_ops_skip[OF assms(8,9)] assms(7) by (simp add: expected_page_def)
  with b show ?thesis by (simp add: jsonToPdf_def jsonToPdf_tmp_def expected_ops_def)
qed

theorem graceful_degradation_witness:
  "jsonToPdf (\<lambda>s. Inl SyntaxError) sample_lib
     (Direct (BFields (JArr [\<lparr> pg_width = 612, pg_height = 792,
                               pg_elements = [text_A, corrupt_image, image_B, text_C] \<rparr>])))
     = \<lparr> response = SentPdfJson
           [\<lparr> out_width = 612, out_height = 792,
              out_ops = [DrawImage (Embedded Png png_1x1) 100 562 40 30,
                         DrawText ''A'' 72 700 (JNum 10), DrawText ''C'' 72 672 (JNum 12)] \<rparr>],
         created = True \<rparr>"
proof -
  let ?p = "\<lparr> pg_width = 612, pg_height = 792,
             pg_elements = [text_A, corrupt_image, image_B, text_C] \<rparr>"
  have sp: "strip_data_uri (''data:image/png;base64,'' @ png_1x1_base64) = png_1x1_base64"
    "strip_data_uri ''data:image/png;base64,!!!!'' = ''!!!!''"
    by (simp_all add: strip_data_uri_def word_char_def)
  have ne: "''!!!!'' \<noteq> png_1x1_base64" "[] \<noteq> png_1x1"
    by (simp_all add: png_1x1_base64_def png_1x1_def)
  have inc: "js_includes (''data:image/png;base64,'' @ png_1x1_base64) ''image/png''"
    "js_includes ''data:image/png;base64,!!!!'' ''image/png''"
    by simp_all
  have eB: "embed_image sample_lib (el_src image_B) = Inr (Embedded Png png_1x1)"
    by (simp add: image_B_def embed_image_def sp inc sample_lib_def embedPng_def Let_def
        del: append.simps js_includes.simps)
  have eC: "embed_image sample_lib (el_src corrupt_image) = Inl EmbedError"
    using ne by (simp add: corrupt_image_def embed_image_def sp inc sample_lib_def embedPng_def Let_def
        del: js_includes.simps)
  have ty: "el_type text_A = ''text''" "el_type text_C = ''text''" "el_type image_B = ''image''"
    "el_type corrupt_image = ''image''"
    by (simp_all add: text_A_def text_C_def image_B_def corrupt_image_def)
  have typed: "\<forall>p\<in>set [?p]. \<forall>x\<in>set (pg_elements p). el_type x = ''text'' \<or> el_type x = ''image''"
    by (simp add: ty)
  have texts: "\<forall>p\<in>set [?p]. \<forall>x\<in>set (pg_elements p).
      el_type x = ''text'' \<longrightarrow> drawText_ok sample_lib (el_text x) (text_size x)"
    by (simp add: ty) (simp add: text_A_def text_C_def text_size_def js_or_def sample_lib_def)
  have lib: "create sample_lib = None" "embedFont sample_lib = None"
    "save sample_lib (map (expected_page sample_lib) [?p]) = None"
    by (simp_all add: sample_lib_def)
  have mem: "?p \<in> set [?p]" "pg_elements ?p = [text_A] @ corrupt_image # [image_B, text_C]"
    by simp_all
  have ex: "expected_page sample_lib ?p
      = \<lparr> out_width = 612, out_height = 792,
          out_ops = [DrawImage (Embedded Png png_1x1) 100 562 40 30,
                     DrawText ''A'' 72 700 (JNum 10), DrawText ''C'' 72 672 (JNum 12)] \<rparr>"
    by (simp add: expected_page_def expected_ops_def ty map_filter_simps image_op_def eB eC text_op_def)
       (simp add: image_B_def text_A_def text_C_def corrupt_image_def text_size_def js_or_def
          draw_text_y_def draw_image_y_def fl_numeral)
  from graceful_degradation[OF typed texts lib mem ty(4) eC, of "\<lambda>s. Inl SyntaxError"] ex
  show ?thesis by simp
qed

text \<open>
  C10. A text element is drawn at \<^verbatim>\<open>fontSize\<close> when that is truthy, and at 12 when it is
  absent, \<^verbatim>\<open>null\<close>, zero or otherwise falsy, in \<^verbatim>\<open>src/app.js\<close> as in the other variants.
\<close>

theorem default_font_size:
  assumes "el_type el = ''text''" and "drawText_ok lib (el_text el) (text_size el)"
  shows "\<exists>sz. draw_element lib h el ops
              = Inr (ops @ [DrawText (el_text el) (el_x el) (draw_text_y h (el_y el)) sz])
          \<and> draw_element_app lib el ops
              = Inr (ops @ [DrawText (el_text el) (el_x el) (el_y el) sz])
          \<and> (el_fontSize el = JUndefined \<or> el_fontSize el = JNull \<or> el_fontSize el = JNum 0
               \<or> el_fontSize el = JBool False \<or> el_fontSize el = JStr [] \<longrightarrow> sz = JNum 12)
          \<and> (\<not> truthy (el_fontSize el) \<longrightarrow> sz = JNum 12)
          \<and> (truthy (el_fontSize el) \<longrightarrow> sz = el_fontSize el)
          \<and> (\<forall>r. r \<noteq> 0 \<and> el_fontSize el = JNum r \<longrightarrow> sz = JNum r)"
  using assms
  by (intro exI[of _ "text_size el"]) (auto simp: draw_element_def draw_element_app_def text_size_def js_or_def)

theorem default_font_size_witness:
  "draw_element sample_lib 792 text_C [] = Inr [DrawText ''C'' 72 672 (JNum 12)]
   \<and> draw_element_app sample_lib text_A [] = Inr [DrawText ''A'' 72 92 (JNum 10)]"
proof -
  have c: "el_type text_C = ''text''" "drawText_ok sample_lib (el_text text_C) (text_size text_C)"
    by (simp_all add: text_C_def sample_lib_def text_size_def js_or_def)
  have a: "el_type text_A = ''text''" "drawText_ok sample_lib (el_text text_A) (text_size text_A)"
    by (simp_all add: text_A_def sample_lib_def text_size_def js_or_def)
  from default_font_size[OF c, of 792 "[]"] default_font_size[OF a, of 792 "[]"]
  show ?thesis by (auto simp: text_C_def text_A_def draw_text_y_def fl_numeral)
qed

subsection \<open>Validation and cleanup\<close>

text \<open>
  C7. The claim: a body without \<^verbatim>\<open>pages\<close> is answered with a user error before any
  document is constructed. \<^verbatim>\<open>/jsonToPdf\<close> of \<^verbatim>\<open>src/app.js\<close> creates the document, then
  throws on iterating \<^verbatim>\<open>undefined\<close> and writes no response, whatever the document
  writer does.
\<close>

theorem missing_pages_unhandled:
  "\<exists>err. jsonToPdf_app lib (BFields JUndefined) = \<lparr> response = NoResponse err, created = True \<rparr>"
  by (simp add: jsonToPdf_app_def split: option.splits)

text \<open>
  X1. The in-memory and the \<^verbatim>\<open>/tmp\<close> variants do validate: a \<^verbatim>\<open>pages\<close> that is falsy or
  no array is answered with status 400 before \<^verbatim>\<open>PDFDocument.create()\<close>.
\<close>

theorem pages_validated:
  assumes "\<not> truthy pages \<or> \<not> isArray pages"
  shows "jsonToPdf JSON_parse lib (Direct (BFields pages))
           = \<lparr> response = Status400 ''Invalid JSON format. Expected { pages: [...] }'', created = False \<rparr>
       \<and> jsonToPdf_tmp lib (BFields pages)
           = \<lparr> response = Status400 ''Invalid JSON format. Expected { pages: [...] }'', created = False \<rparr>"
  using assms by (simp add: jsonToPdf_def jsonToPdf_tmp_def)

theorem pages_validated_witness:
  "jsonToPdf (\<lambda>s. Inl SyntaxError) sample_lib (Direct (BFields JUndefined))
           = \<lparr> response = Status400 ''Invalid JSON format. Expected { pages: [...] }'', created = False \<rparr>
   \<and> jsonToPdf_tmp sample_lib (BFields (JStr ''abc''))
           = \<lparr> response = Status400 ''Invalid JSON format. Expected { pages: [...] }'', created = False \<rparr>"
  using pages_validated[of JUndefined "\<lambda>s. Inl SyntaxError" sample_lib]
    pages_validated[of "JStr ''abc''" "\<lambda>s. Inl SyntaxError" sample_lib]
  by simp

text \<open>
  C9. The claim: the staged upload is removed on every path. \<^verbatim>\<open>/pdfToJson\<close> of
  \<^verbatim>\<open>src/app.js\<close> leaves it on disk when the document cannot be parsed.
\<close>

theorem upload_left_on_failure:
  "pdfToJson_app (\<lambda>data. Inl ParseError) (fs(pdfPath \<mapsto> upload)) (Some pdfPath)
     = \<lparr> ex_response = NoResponse ParseError, ex_fs = fs(pdfPath \<mapsto> upload) \<rparr>
   \<and> existsSync (ex_fs (pdfToJson_app (\<lambda>data. Inl ParseError) (fs(pdfPath \<mapsto> upload)) (Some pdfPath))) pdfPath"
  by (simp add: pdfToJson_app_def readFileSync_def existsSync_def)

text \<open>
  X2. The \<^verbatim>\<open>/tmp\<close> variant removes the staged upload on every path: whatever the parser
  does, the file is not on disk when the handler has answered.
\<close>

theorem tmp_upload_always_removed:
  "\<not> existsSync (ex_fs (pdfToJson_tmp OPS getDocument fs (Some pdfPath))) pdfPath"
  by (auto simp: pdfToJson_tmp_def pdfToJson_try_def readFileSync_def unlinkSync_def existsSync_def
      split: sum.splits option.splits prod.splits)

end
